theory Spec2Isabelle
  imports Main "HOL-Library.Multiset"
begin

section \<open>The configuration store\<close>

text \<open>
  Modelled from the spec: the configuration store (the global \<open>gArgs\<close>, class
  \<open>ArgsManager\<close> of \<open>util/system\<close>) is not part of \<open>wallet/init.cpp\<close>. The spec
  describes it as "get/set (soft-set = set-only-if-unset) boolean/string/list-valued
  options by name". The store gives every option name the list of the values it was
  given, in order; an option is set when it has at least one value. The negation of
  options (\<open>-noNAME\<close>) is not described by the spec and has no counterpart here.
\<close>

type_synonym args = "string \<Rightarrow> string list"

text \<open>The store in which no option is set.\<close>

definition no_args :: args where
  "no_args = (\<lambda>_. [])"

text \<open>
  Modelled from the spec: \<open>ArgsManager::GetArgs\<close>, the list-valued read of the store:
  the values of the option.
\<close>

definition GetArgs :: "args \<Rightarrow> string \<Rightarrow> string list" where
  "GetArgs a strArg = a strArg"

text \<open>
  Modelled from the spec: \<open>ArgsManager::IsArgSet\<close>, whether the option is set (the
  "unset" of the spec's soft-set).
\<close>

definition IsArgSet :: "args \<Rightarrow> string \<Rightarrow> bool" where
  "IsArgSet a strArg = (a strArg \<noteq> [])"

text \<open>
  Modelled from the spec: \<open>ArgsManager::GetArg\<close> with a string default, the
  string-valued read of the store: the last value given, or the default.
\<close>

definition GetArg :: "args \<Rightarrow> string \<Rightarrow> string \<Rightarrow> string" where
  "GetArg a strArg strDefault = (if IsArgSet a strArg then last (a strArg) else strDefault)"

text \<open>
  Modelled from the spec: the reading of a value as a number (\<open>atoi\<close>) and as a boolean
  (\<open>InterpretBool\<close>) belongs to the option parser, which is not part of
  \<open>wallet/init.cpp\<close>; the spec has boolean-valued options and a numeric prune height.
  A value is read as the decimal number it starts with, after blanks and a sign, and as
  0 when it starts with none; the bound of the machine integer is left out. An option
  given with an empty value is true, any other value is true when its number is not 0.
\<close>

definition isspace :: "char \<Rightarrow> bool" where
  "isspace c = (c \<in> set [CHR '' '', CHR 0x09, CHR 0x0A, CHR 0x0B, CHR 0x0C, CHR 0x0D])"

definition isdigit :: "char \<Rightarrow> bool" where
  "isdigit c = (48 \<le> (of_char c :: nat) \<and> (of_char c :: nat) \<le> 57)"

fun atoi_digits :: "int \<Rightarrow> string \<Rightarrow> int" where
  "atoi_digits acc [] = acc"
| "atoi_digits acc (c # cs) =
     (if isdigit c then atoi_digits (10 * acc + (int (of_char c) - 48)) cs else acc)"

definition atoi :: "string \<Rightarrow> int" where
  "atoi s =
     (case dropWhile isspace s of
        [] \<Rightarrow> 0
      | c # cs \<Rightarrow>
          if c = CHR ''-'' then - atoi_digits 0 cs
          else if c = CHR ''+'' then atoi_digits 0 cs
          else atoi_digits 0 (c # cs))"

definition InterpretBool :: "string \<Rightarrow> bool" where
  "InterpretBool strValue = (strValue = [] \<or> atoi strValue \<noteq> 0)"

text \<open>
  Modelled from the spec: \<open>ArgsManager::GetBoolArg\<close>, the boolean-valued read of the
  store: the last value given, read as a boolean, or the default.
\<close>

definition GetBoolArg :: "args \<Rightarrow> string \<Rightarrow> bool \<Rightarrow> bool" where
  "GetBoolArg a strArg fDefault =
     (if IsArgSet a strArg then InterpretBool (last (a strArg)) else fDefault)"

text \<open>
  Modelled from the spec: \<open>ArgsManager::GetArg\<close> with an integer default, the
  integer-valued read of the store (the prune height).
\<close>

definition GetIntArg :: "args \<Rightarrow> string \<Rightarrow> int \<Rightarrow> int" where
  "GetIntArg a strArg nDefault =
     (if IsArgSet a strArg then atoi (last (a strArg)) else nDefault)"

text \<open>
  Modelled from the spec: \<open>ArgsManager::ForceSetArg\<close>, the "set" of the store: the
  option has the one value given, whatever it had.
\<close>

definition ForceSetArg :: "args \<Rightarrow> string \<Rightarrow> string \<Rightarrow> args" where
  "ForceSetArg a strArg strValue = a(strArg := [strValue])"

text \<open>
  Modelled from the spec: \<open>ArgsManager::SoftSetArg\<close>, the soft-set of the store: the
  option is set only when it is not set yet. The result says whether the value was set,
  next to the store.
\<close>

definition SoftSetArg :: "args \<Rightarrow> string \<Rightarrow> string \<Rightarrow> bool \<times> args" where
  "SoftSetArg a strArg strValue =
     (if IsArgSet a strArg then (False, a) else (True, ForceSetArg a strArg strValue))"

text \<open>
  Modelled from the spec: \<open>ArgsManager::SoftSetBoolArg\<close>, the soft-set of a boolean:
  true is the value 1, false the value 0.
\<close>

definition SoftSetBoolArg :: "args \<Rightarrow> string \<Rightarrow> bool \<Rightarrow> bool \<times> args" where
  "SoftSetBoolArg a strArg fValue =
     (if fValue then SoftSetArg a strArg ''1'' else SoftSetArg a strArg ''0'')"


section \<open>Messages to the user\<close>

text \<open>
  \<open>InitError\<close> shows an error message and returns false, \<open>InitWarning\<close> shows a
  warning. Both are calls into the user interface; the model records the messages in the
  order of the calls. Each error of \<open>wallet/init.cpp\<close> is a constructor, with the text
  the message is formatted with as its argument. Log lines (\<open>LogPrintf\<close>) are not
  recorded.
\<close>

datatype init_error =
    SingleWalletOnly string
      \<comment> \<open>"%s is only allowed with a single wallet file"\<close>
  | SyspermsWithWallet
      \<comment> \<open>"-sysperms is not allowed in combination with enabled wallet functionality"\<close>
  | RescanInPrunedMode
      \<comment> \<open>"Rescans are not possible in pruned mode. ..."\<close>
  | WalletDirDoesNotExist string
      \<comment> \<open>"Specified -walletdir "%s" does not exist"\<close>
  | WalletDirNotADirectory string
      \<comment> \<open>"Specified -walletdir "%s" is not a directory"\<close>
  | WalletDirRelativePath string
      \<comment> \<open>"Specified -walletdir "%s" is a relative path"\<close>
  | DuplicateWalletFilename string
      \<comment> \<open>"Error loading wallet %s. Duplicate -wallet filename specified."\<close>
  | VerifyErrorString string
      \<comment> \<open>the error string that \<open>CWallet::Verify\<close> returned\<close>

datatype init_warning =
    MinRelayFeeHigh
      \<comment> \<open>\<open>AmountHighWarn("-minrelaytxfee")\<close> and "The wallet will avoid paying less ..."\<close>
  | VerifyWarningString string
      \<comment> \<open>the warning string that \<open>CWallet::Verify\<close> returned\<close>

datatype message = InitError init_error | InitWarning init_warning


section \<open>Parameter interaction\<close>

text \<open>
  The constants \<open>DEFAULT_DISABLE_WALLET\<close>, \<open>DEFAULT_BLOCKSONLY\<close> and
  \<open>HIGH_TX_FEE_PER_KB\<close> are declared in headers outside \<open>wallet/init.cpp\<close>; they
  are parameters of the model.
\<close>

record init_consts =
  DEFAULT_DISABLE_WALLET :: bool
  DEFAULT_BLOCKSONLY :: bool
  HIGH_TX_FEE_PER_KB :: int

text \<open>
  \<open>WalletInit::ParameterInteraction\<close>. The global store is passed in and returned; the
  third component of the result lists the messages shown. \<open>minRelayTxFee\<close> is the fee
  per kB of the global \<open>::minRelayTxFee\<close>. The stores \<open>a1\<close> to \<open>a4\<close> are the store
  after each soft-set of the source, in its order.
\<close>

definition ParameterInteraction :: "init_consts \<Rightarrow> int \<Rightarrow> args \<Rightarrow> bool \<times> args \<times> message list" where
  "ParameterInteraction k minRelayTxFee a0 =
     (if GetBoolArg a0 ''-disablewallet'' (DEFAULT_DISABLE_WALLET k) then (True, a0, [])
      else
        let is_multiwallet = (length (GetArgs a0 ''-wallet'') > 1);
            a1 = (if GetBoolArg a0 ''-blocksonly'' (DEFAULT_BLOCKSONLY k)
                  then snd (SoftSetBoolArg a0 ''-walletbroadcast'' False) else a0)
        in
        if GetBoolArg a1 ''-salvagewallet'' False \<and> is_multiwallet
        then (False, a1, [InitError (SingleWalletOnly ''-salvagewallet'')])
        else
          let a2 = (if GetBoolArg a1 ''-salvagewallet'' False
                    then snd (SoftSetBoolArg a1 ''-rescan'' True) else a1);
              zapwallettxes = GetBoolArg a2 ''-zapwallettxes'' False;
              a3 = (if zapwallettxes
                    then snd (SoftSetBoolArg a2 ''-persistmempool'' False) else a2)
          in
          if zapwallettxes \<and> is_multiwallet
          then (False, a3, [InitError (SingleWalletOnly ''-zapwallettxes'')])
          else
            let a4 = (if zapwallettxes
                      then snd (SoftSetBoolArg a3 ''-rescan'' True) else a3)
            in
            if is_multiwallet \<and> GetBoolArg a4 ''-upgradewallet'' False
            then (False, a4, [InitError (SingleWalletOnly ''-upgradewallet'')])
            else if GetBoolArg a4 ''-sysperms'' False
            then (False, a4, [InitError SyspermsWithWallet])
            else if GetIntArg a4 ''-prune'' 0 \<noteq> 0 \<and> GetBoolArg a4 ''-rescan'' False
            then (False, a4, [InitError RescanInPrunedMode])
            else (True, a4,
                  if minRelayTxFee > HIGH_TX_FEE_PER_KB k
                  then [InitWarning MinRelayFeeHigh] else []))"


section \<open>Verification of the wallet files\<close>

text \<open>
  The file system as \<open>VerifyWallets\<close> asks it: \<open>fs::canonical\<close> (\<open>None\<close> when it
  sets the error code), \<open>fs::exists\<close>, \<open>fs::is_directory\<close> and
  \<open>path::is_absolute\<close>. Paths are strings.
\<close>

record filesystem =
  canonical :: "string \<Rightarrow> string option"
  exists :: "string \<Rightarrow> bool"
  is_directory :: "string \<Rightarrow> bool"
  is_absolute :: "string \<Rightarrow> bool"

text \<open>
  What \<open>VerifyWallets\<close> does to the outside, in order: the messages it shows, the
  wallet locations it resolves (\<open>WalletLocation location(wallet_file)\<close>) and its calls
  of \<open>CWallet::Verify\<close>, with the path of the location and the salvage flag passed.
\<close>

datatype verify_event =
    Message message
  | ResolveLocation string
  | CallVerify string bool


text \<open>
  The verification of one wallet file in the loop of \<open>VerifyWallets\<close>, after the
  check for a duplicate: the call of \<open>CWallet::Verify\<close>, then the error string and the
  warning string it gave, each shown when it is not empty. The result is
  \<open>verify_success\<close> and what was done. \<open>GetPath\<close> is the path of the location of a
  wallet file, \<open>Verify\<close> is \<open>CWallet::Verify\<close>, which gives its result, its error
  string and its warning string; both are defined outside \<open>wallet/init.cpp\<close> and are
  parameters.
\<close>

definition verify_wallet ::
  "(string \<Rightarrow> string) \<Rightarrow> (string \<Rightarrow> bool \<Rightarrow> bool \<times> string \<times> string) \<Rightarrow> bool \<Rightarrow>
   string \<Rightarrow> bool \<times> verify_event list" where
  "verify_wallet GetPath Verify salvage_wallet wallet_file =
     (case Verify (GetPath wallet_file) salvage_wallet of
        (verify_success, error_string, warning_string) \<Rightarrow>
          (verify_success,
           [CallVerify (GetPath wallet_file) salvage_wallet]
           @ (if error_string \<noteq> []
              then [Message (InitError (VerifyErrorString error_string))] else [])
           @ (if warning_string \<noteq> []
              then [Message (InitWarning (VerifyWarningString warning_string))] else [])))"

text \<open>
  The loop over \<open>wallet_files\<close>; \<open>wallet_paths\<close> is the set of the paths seen.
\<close>

fun verify_loop ::
  "(string \<Rightarrow> string) \<Rightarrow> (string \<Rightarrow> bool \<Rightarrow> bool \<times> string \<times> string) \<Rightarrow> bool \<Rightarrow>
   string set \<Rightarrow> string list \<Rightarrow> bool \<times> verify_event list" where
  "verify_loop GetPath Verify salvage_wallet wallet_paths [] = (True, [])"
| "verify_loop GetPath Verify salvage_wallet wallet_paths (wallet_file # rest) =
     (if GetPath wallet_file \<in> wallet_paths
      then (False, [ResolveLocation wallet_file,
                    Message (InitError (DuplicateWalletFilename wallet_file))])
      else
        case verify_wallet GetPath Verify salvage_wallet wallet_file of
          (verify_success, evs) \<Rightarrow>
            if \<not> verify_success then (False, ResolveLocation wallet_file # evs)
            else
              case verify_loop GetPath Verify salvage_wallet
                     (insert (GetPath wallet_file) wallet_paths) rest of
                (r, evs') \<Rightarrow> (r, ResolveLocation wallet_file # evs @ evs'))"

text \<open>
  The part of \<open>VerifyWallets\<close> after the check of \<open>-walletdir\<close>: the salvage flag
  and the loop. The location of a wallet file depends on the store (the wallet
  directory), so \<open>WalletLocation\<close> takes the store. The log line and the progress
  message (\<open>uiInterface.InitMessage\<close>) before the loop are not recorded.
\<close>

definition verify_wallet_files ::
  "(args \<Rightarrow> string \<Rightarrow> string) \<Rightarrow> (string \<Rightarrow> bool \<Rightarrow> bool \<times> string \<times> string) \<Rightarrow>
   args \<Rightarrow> string list \<Rightarrow> bool \<times> args \<times> verify_event list" where
  "verify_wallet_files WalletLocation Verify a wallet_files =
     (let salvage_wallet = (GetBoolArg a ''-salvagewallet'' False \<and> length wallet_files \<le> 1)
      in case verify_loop (WalletLocation a) Verify salvage_wallet {} wallet_files of
           (r, evs) \<Rightarrow> (r, a, evs))"

text \<open>
  \<open>VerifyWallets\<close>. The global store is passed in and returned, next to the value
  returned and what was done. The \<open>chain\<close> argument is only handed on to
  \<open>CWallet::Verify\<close> and is left out.
\<close>

definition VerifyWallets ::
  "filesystem \<Rightarrow> (args \<Rightarrow> string \<Rightarrow> string) \<Rightarrow>
   (string \<Rightarrow> bool \<Rightarrow> bool \<times> string \<times> string) \<Rightarrow>
   args \<Rightarrow> string list \<Rightarrow> bool \<times> args \<times> verify_event list" where
  "VerifyWallets fs WalletLocation Verify a wallet_files =
     (if IsArgSet a ''-walletdir'' then
        let wallet_dir = GetArg a ''-walletdir'' '''' in
        case canonical fs wallet_dir of
          None \<Rightarrow> (False, a, [Message (InitError (WalletDirDoesNotExist wallet_dir))])
        | Some canonical_wallet_dir \<Rightarrow>
            if \<not> exists fs wallet_dir
            then (False, a, [Message (InitError (WalletDirDoesNotExist wallet_dir))])
            else if \<not> is_directory fs wallet_dir
            then (False, a, [Message (InitError (WalletDirNotADirectory wallet_dir))])
            else if \<not> is_absolute fs wallet_dir
            then (False, a, [Message (InitError (WalletDirRelativePath wallet_dir))])
            else verify_wallet_files WalletLocation Verify
                   (ForceSetArg a ''-walletdir'' canonical_wallet_dir) wallet_files
      else verify_wallet_files WalletLocation Verify a wallet_files)"


section \<open>Construction of the wallet client\<close>

text \<open>
  The directories \<open>GetDataDir()\<close>, \<open>GetWalletDir()\<close> and
  \<open>GetDefaultDataDirLegacy()\<close> come from outside \<open>wallet/init.cpp\<close> and are
  parameters.
\<close>

record dirs =
  GetDataDir :: string
  GetWalletDir :: string
  GetDefaultDataDirLegacy :: string

text \<open>The path \<open>dir / name\<close>.\<close>

definition path_append :: "string \<Rightarrow> string \<Rightarrow> string" where
  "path_append dir name = dir @ ''/'' @ name"

text \<open>
  Modelled from the spec: \<open>fs::copy_file\<close> with \<open>fs::copy_option::fail_if_exists\<close>
  is the file system's "copy-file-failing-if-destination-exists". The files are a map
  from paths to contents. The copy throws when the source does not exist or the
  destination exists, and leaves the files as they are.
\<close>

datatype fs_error = FilesystemError

definition copy_file_fail_if_exists ::
  "(string \<rightharpoonup> 'c) \<Rightarrow> string \<Rightarrow> string \<Rightarrow> fs_error + (string \<rightharpoonup> 'c)" where
  "copy_file_fail_if_exists fls src dst =
     (case fls src of
        None \<Rightarrow> Inl FilesystemError
      | Some c \<Rightarrow> if fls dst \<noteq> None then Inl FilesystemError else Inr (fls(dst \<mapsto> c)))"

text \<open>
  The state \<open>Construct\<close> works on: the store, the files, the chain clients of the
  init interfaces (a wallet client is the list of wallet names it was made with), and
  the copies made, as pairs of source and destination.
\<close>

record 'c node =
  gArgs :: args
  files :: "string \<rightharpoonup> 'c"
  chain_clients :: "string list list"
  copies :: "(string \<times> string) list"

text \<open>
  The first part of \<open>WalletInit::Construct\<close>, after the check of \<open>-disablewallet\<close>:
  the copy of the legacy wallet. \<open>GetPath\<close> is the path of a wallet location;
  \<open>WalletLocation::Exists\<close> is that a file is at this path.
\<close>

definition copy_legacy_wallet ::
  "dirs \<Rightarrow> (string \<Rightarrow> string) \<Rightarrow> 'c node \<Rightarrow> fs_error + 'c node" where
  "copy_legacy_wallet d GetPath n =
     (let peersDat = path_append (GetDataDir d) ''peers.dat'';
          firstTimeLoad = (files n peersDat = None)
      in
      if firstTimeLoad then
        let defaultWallet1 = GetPath (path_append (GetDataDir d) ''wallet.dat'');
            defaultWallet2 = GetPath (path_append (GetWalletDir d) ''wallet.dat'');
            legacyWallet = GetPath (path_append (GetDefaultDataDirLegacy d) ''wallet.dat'')
        in
        if files n defaultWallet1 = None \<and> files n defaultWallet2 = None
           \<and> files n legacyWallet \<noteq> None
        then
          case copy_file_fail_if_exists (files n) legacyWallet defaultWallet2 of
            Inl e \<Rightarrow> Inl e
          | Inr fls \<Rightarrow>
              Inr (n\<lparr>files := fls, copies := copies n @ [(legacyWallet, defaultWallet2)]\<rparr>)
        else Inr n
      else Inr n)"

definition Construct ::
  "init_consts \<Rightarrow> dirs \<Rightarrow> (string \<Rightarrow> string) \<Rightarrow> 'c node \<Rightarrow> fs_error + 'c node" where
  "Construct k d GetPath n =
     (if GetBoolArg (gArgs n) ''-disablewallet'' (DEFAULT_DISABLE_WALLET k) then Inr n
      else
        case copy_legacy_wallet d GetPath n of
          Inl e \<Rightarrow> Inl e
        | Inr n1 \<Rightarrow>
            let a = snd (SoftSetArg (gArgs n1) ''-wallet'' '''')
            in Inr (n1\<lparr>gArgs := a,
                       chain_clients := chain_clients n1 @ [GetArgs a ''-wallet'']\<rparr>))"


section \<open>The wallet registry\<close>

text \<open>
  Modelled from the spec: \<open>AddWallet\<close> of the registry of the loaded wallets
  (\<open>vpwallets\<close> of \<open>wallet/wallet.cpp\<close>, not part of \<open>wallet/init.cpp\<close>). The spec
  describes the registry as "an insertion-ordered set of WalletHandles, keyed implicitly
  by identity": adding a handle puts it last unless it is there already. The callers
  here drop the result of the call.
\<close>

definition AddWallet :: "'h list \<Rightarrow> 'h \<Rightarrow> 'h list" where
  "AddWallet vpwallets wallet =
     (if wallet \<in> set vpwallets then vpwallets else vpwallets @ [wallet])"

text \<open>
  Modelled from the spec: \<open>RemoveWallet\<close> of the registry of the loaded wallets
  (\<open>wallet/wallet.cpp\<close>, not part of \<open>wallet/init.cpp\<close>): removing a handle takes it
  out of the registry. The callers here drop the result of the call.
\<close>

definition RemoveWallet :: "'h list \<Rightarrow> 'h \<Rightarrow> 'h list" where
  "RemoveWallet vpwallets wallet = remove1 wallet vpwallets"


section \<open>Loading\<close>

text \<open>
  What \<open>LoadWallets\<close> does to the outside, in order: its calls of
  \<open>CWallet::CreateWalletFromFile\<close>, with the wallet file, and of \<open>AddWallet\<close>.
\<close>

datatype 'h load_event =
    CallCreateWalletFromFile string
  | CallAddWallet 'h

text \<open>
  \<open>LoadWallets\<close>, on the registry \<open>vpwallets\<close>. \<open>CreateWalletFromFile\<close> gives the
  handle of the wallet made from the location of a wallet file, or \<open>None\<close> for the
  null pointer; it is defined outside \<open>wallet/init.cpp\<close> and is a parameter. The
  result is the value returned, the registry and the calls made.
\<close>

fun LoadWallets ::
  "(string \<Rightarrow> 'h option) \<Rightarrow> 'h list \<Rightarrow> string list \<Rightarrow> bool \<times> 'h list \<times> 'h load_event list" where
  "LoadWallets CreateWalletFromFile vpwallets [] = (True, vpwallets, [])"
| "LoadWallets CreateWalletFromFile vpwallets (walletFile # rest) =
     (case CreateWalletFromFile walletFile of
        None \<Rightarrow> (False, vpwallets, [CallCreateWalletFromFile walletFile])
      | Some pwallet \<Rightarrow>
          (case LoadWallets CreateWalletFromFile (AddWallet vpwallets pwallet) rest of
             (r, vpwallets', evs) \<Rightarrow>
               (r, vpwallets',
                CallCreateWalletFromFile walletFile # CallAddWallet pwallet # evs)))"


section \<open>Unloading\<close>

text \<open>
  The state \<open>UnloadWallets\<close> works on: the registry, and the handles that
  \<open>UnloadWallet\<close> was called with, in the order of the calls.
\<close>

record 'h wallets_state =
  registry :: "'h list"
  released :: "'h list"

text \<open>
  The loop of \<open>UnloadWallets\<close> on its local copy \<open>wallets\<close> of the registry. The
  result lists the state after each call: after \<open>RemoveWallet(wallet)\<close>, then after
  \<open>UnloadWallet(std::move(wallet))\<close>.
\<close>

function unload_loop :: "'h list \<Rightarrow> 'h wallets_state \<Rightarrow> 'h wallets_state list" where
  "unload_loop wallets s =
     (if wallets \<noteq> [] then
        let wallet = last wallets;
            s1 = s\<lparr>registry := RemoveWallet (registry s) wallet\<rparr>;
            s2 = s1\<lparr>released := released s1 @ [wallet]\<rparr>
        in s1 # s2 # unload_loop (butlast wallets) s2
      else [])"
  by pat_completeness auto
termination
  by (relation "measure (\<lambda>(wallets, s). length wallets)") auto

text \<open>
  \<open>UnloadWallets\<close>: the states it goes through, from the state it starts in to the
  state it ends in. \<open>GetWallets()\<close> gives a copy of the registry.
\<close>

definition UnloadWallets :: "'h wallets_state \<Rightarrow> 'h wallets_state list" where
  "UnloadWallets s = s # unload_loop (registry s) s"


section \<open>Sample configurations\<close>

text \<open>
  The values of the constants in the node: wallets are not disabled by default, blocks-only
  mode is off by default, and the high fee is a hundredth of a coin per kB.
\<close>

definition node_consts :: init_consts where
  "node_consts = \<lparr>DEFAULT_DISABLE_WALLET = False, DEFAULT_BLOCKSONLY = False,
                  HIGH_TX_FEE_PER_KB = 1000000\<rparr>"

text \<open>Two wallets, with \<open>-salvagewallet=1\<close> and with \<open>-upgradewallet=1\<close>.\<close>

definition args_salvage_two_wallets :: args where
  "args_salvage_two_wallets =
     no_args(''-wallet'' := [''alice'', ''bob''], ''-salvagewallet'' := [''1''])"

definition args_upgrade_two_wallets :: args where
  "args_upgrade_two_wallets =
     no_args(''-wallet'' := [''alice'', ''bob''], ''-upgradewallet'' := [''1''])"

text \<open>\<open>-zapwallettxes=1\<close> with two wallets, and \<open>-zapwallettxes=2\<close> with one.\<close>

definition args_zap_two_wallets :: args where
  "args_zap_two_wallets =
     no_args(''-wallet'' := [''alice'', ''bob''], ''-zapwallettxes'' := [''1''])"

definition args_zap_one_wallet :: args where
  "args_zap_one_wallet = no_args(''-wallet'' := [''alice''], ''-zapwallettxes'' := [''2''])"

text \<open>Two wallets with \<open>-blocksonly=1\<close> and \<open>-salvagewallet=1\<close>.\<close>

definition args_blocksonly_salvage_two_wallets :: args where
  "args_blocksonly_salvage_two_wallets =
     no_args(''-wallet'' := [''alice'', ''bob''], ''-blocksonly'' := [''1''],
             ''-salvagewallet'' := [''1''])"

text \<open>
  A file system with the wallet directory \<open>/data/wallets\<close>, also reached as
  \<open>/data/./wallets\<close> and as the relative path \<open>wallets\<close>, and the file
  \<open>/data/peers.dat\<close>; locations under the wallet directory of the store, or under
  \<open>/data\<close>; and a verification that fails on the wallet \<open>alice\<close> with an error string
  and succeeds with a warning on the others.
\<close>

definition sample_fs :: filesystem where
  "sample_fs =
     \<lparr>canonical = (\<lambda>p. if p \<in> {''/data/./wallets'', ''/data/wallets'', ''wallets''}
                         then Some ''/data/wallets''
                         else if p = ''/data/peers.dat'' then Some p else None),
      exists = (\<lambda>p. p \<in> {''/data/./wallets'', ''/data/wallets'', ''wallets'',
                             ''/data/peers.dat''}),
      is_directory = (\<lambda>p. p \<in> {''/data/./wallets'', ''/data/wallets'', ''wallets''}),
      is_absolute = (\<lambda>p. take 1 p = ''/'')\<rparr>"

definition sample_location :: "args \<Rightarrow> string \<Rightarrow> string" where
  "sample_location a wallet_file = GetArg a ''-walletdir'' ''/data'' @ ''/'' @ wallet_file"

definition sample_verify :: "string \<Rightarrow> bool \<Rightarrow> bool \<times> string \<times> string" where
  "sample_verify path salvage =
     (if path = ''/data/alice'' then (False, ''corrupt'', []) else (True, [], ''old''))"


definition args_walletdir :: "string \<Rightarrow> args" where
  "args_walletdir dir = no_args(''-walletdir'' := [dir])"

text \<open>
  The directories of a node, a node on its first run that has only the legacy wallet
  file, and two more stores: wallets disabled, and two wallets.
\<close>

definition sample_dirs :: dirs where
  "sample_dirs = \<lparr>GetDataDir = ''/data'', GetWalletDir = ''/data/wallets'',
                   GetDefaultDataDirLegacy = ''/legacy''\<rparr>"

definition node_first_run :: "args \<Rightarrow> string node" where
  "node_first_run a =
     \<lparr>gArgs = a, files = [''/legacy/wallet.dat'' \<mapsto> ''keys''], chain_clients = [],
      copies = []\<rparr>"

definition args_disablewallet :: args where
  "args_disablewallet = no_args(''-disablewallet'' := [''1''])"

definition args_wallets :: args where
  "args_wallets = no_args(''-wallet'' := [''alice'', ''bob''])"

text \<open>
  A construction of wallets that fails on the wallet file \<open>bob\<close> (handles are
  numbers), and a registry of three wallets.
\<close>

definition sample_create :: "string \<Rightarrow> nat option" where
  "sample_create wallet_file = (if wallet_file = ''bob'' then None else Some (length wallet_file))"

definition sample_wallets :: "nat wallets_state" where
  "sample_wallets = \<lparr>registry = [1, 2, 3], released = []\<rparr>"


section \<open>Facts about the configuration store\<close>

lemmas store_defs = GetBoolArg_def GetArgs_def IsArgSet_def GetArg_def GetIntArg_def

lemma snd_SoftSetBoolArg:
  "snd (SoftSetBoolArg a n b) = (if a n = [] then a(n := [if b then ''1'' else ''0'']) else a)"
  by (simp add: SoftSetBoolArg_def SoftSetArg_def IsArgSet_def ForceSetArg_def)

lemma GetBoolArg_upd_other:
  "n \<noteq> m \<Longrightarrow> GetBoolArg (a(m := v)) n d = GetBoolArg a n d"
  by (simp add: GetBoolArg_def IsArgSet_def)

lemma GetBoolArg_SoftSet_other:
  "n \<noteq> m \<Longrightarrow> GetBoolArg (snd (SoftSetBoolArg a m b)) n d = GetBoolArg a n d"
  by (simp add: snd_SoftSetBoolArg GetBoolArg_upd_other)

lemma GetIntArg_SoftSet_other:
  "n \<noteq> m \<Longrightarrow> GetIntArg (snd (SoftSetBoolArg a m b)) n d = GetIntArg a n d"
  by (simp add: snd_SoftSetBoolArg GetIntArg_def IsArgSet_def)

lemma InterpretBool_1: "InterpretBool ''1''"
  by (simp add: InterpretBool_def atoi_def isspace_def isdigit_def)

lemma InterpretBool_2: "InterpretBool ''2''"
  by (simp add: InterpretBool_def atoi_def isspace_def isdigit_def)

lemma InterpretBool_0: "\<not> InterpretBool ''0''"
  by (simp add: InterpretBool_def atoi_def isspace_def isdigit_def)


section \<open>Parameter interaction: the options of a single wallet file\<close>

text \<open>
  C3. With wallets enabled and more than one \<open>-wallet\<close> value, parameter interaction
  fails when \<open>-salvagewallet\<close> is true, with the error that \<open>-salvagewallet\<close> is only
  allowed with a single wallet file, whatever \<open>-upgradewallet\<close> is; and it fails when
  \<open>-upgradewallet\<close> is true, whatever \<open>-salvagewallet\<close> is, with the same error for a
  single wallet file: it names \<open>-salvagewallet\<close> or \<open>-zapwallettxes\<close> when that
  option is true as well (their checks come first), and \<open>-upgradewallet\<close> otherwise.
\<close>

theorem multiwallet_rejects_salvage_and_upgrade:
  assumes enabled: "\<not> GetBoolArg a ''-disablewallet'' (DEFAULT_DISABLE_WALLET k)"
      and multi: "length (GetArgs a ''-wallet'') > 1"
  shows "(GetBoolArg a ''-salvagewallet'' False \<longrightarrow>
            \<not> fst (ParameterInteraction k fee a) \<and>
            snd (snd (ParameterInteraction k fee a)) =
              [InitError (SingleWalletOnly ''-salvagewallet'')])
       \<and> (GetBoolArg a ''-upgradewallet'' False \<longrightarrow>
            \<not> fst (ParameterInteraction k fee a) \<and>
            snd (snd (ParameterInteraction k fee a)) =
              [InitError (SingleWalletOnly
                 (if GetBoolArg a ''-salvagewallet'' False then ''-salvagewallet''
                  else if GetBoolArg a ''-zapwallettxes'' False then ''-zapwallettxes''
                  else ''-upgradewallet''))])"
  using enabled multi
  by (simp add: ParameterInteraction_def Let_def GetBoolArg_SoftSet_other)

theorem multiwallet_rejects_salvage_and_upgrade_witness:
  "\<not> GetBoolArg args_salvage_two_wallets ''-disablewallet'' (DEFAULT_DISABLE_WALLET node_consts)
   \<and> length (GetArgs args_salvage_two_wallets ''-wallet'') > 1
   \<and> GetBoolArg args_salvage_two_wallets ''-salvagewallet'' False
   \<and> \<not> fst (ParameterInteraction node_consts 0 args_salvage_two_wallets)
   \<and> snd (snd (ParameterInteraction node_consts 0 args_salvage_two_wallets))
       = [InitError (SingleWalletOnly ''-salvagewallet'')]
   \<and> \<not> GetBoolArg args_upgrade_two_wallets ''-disablewallet'' (DEFAULT_DISABLE_WALLET node_consts)
   \<and> length (GetArgs args_upgrade_two_wallets ''-wallet'') > 1
   \<and> GetBoolArg args_upgrade_two_wallets ''-upgradewallet'' False
   \<and> \<not> fst (ParameterInteraction node_consts 0 args_upgrade_two_wallets)
   \<and> snd (snd (ParameterInteraction node_consts 0 args_upgrade_two_wallets))
       = [InitError (SingleWalletOnly ''-upgradewallet'')]"
proof -
  have e1: "\<not> GetBoolArg args_salvage_two_wallets ''-disablewallet''
                (DEFAULT_DISABLE_WALLET node_consts)"
    by (simp add: args_salvage_two_wallets_def no_args_def node_consts_def store_defs)
  have m1: "length (GetArgs args_salvage_two_wallets ''-wallet'') > 1"
    by (simp add: args_salvage_two_wallets_def no_args_def store_defs)
  have s1: "GetBoolArg args_salvage_two_wallets ''-salvagewallet'' False"
    by (simp add: args_salvage_two_wallets_def no_args_def store_defs InterpretBool_1)
  have e2: "\<not> GetBoolArg args_upgrade_two_wallets ''-disablewallet''
                (DEFAULT_DISABLE_WALLET node_consts)"
    by (simp add: args_upgrade_two_wallets_def no_args_def node_consts_def store_defs)
  have m2: "length (GetArgs args_upgrade_two_wallets ''-wallet'') > 1"
    by (simp add: args_upgrade_two_wallets_def no_args_def store_defs)
  have u2: "GetBoolArg args_upgrade_two_wallets ''-upgradewallet'' False"
    by (simp add: args_upgrade_two_wallets_def no_args_def store_defs InterpretBool_1)
  have ns2: "\<not> GetBoolArg args_upgrade_two_wallets ''-salvagewallet'' False"
    by (simp add: args_upgrade_two_wallets_def no_args_def store_defs)
  have nz2: "\<not> GetBoolArg args_upgrade_two_wallets ''-zapwallettxes'' False"
    by (simp add: args_upgrade_two_wallets_def no_args_def store_defs)
  from multiwallet_rejects_salvage_and_upgrade [OF e1 m1, of 0] s1
       multiwallet_rejects_salvage_and_upgrade [OF e2 m2, of 0] u2 ns2 nz2
  show ?thesis using e1 m1 e2 m2 by simp
qed


section \<open>Parameter interaction: zapping the wallet transactions\<close>

lemma GetBoolArg_mode:
  assumes "GetArg a n '''' = ''1'' \<or> GetArg a n '''' = ''2''"
  shows "GetBoolArg a n d"
  using assms InterpretBool_1 InterpretBool_2
  by (auto simp: GetArg_def GetBoolArg_def split: if_splits)

lemma GetArgs_SoftSet:
  "GetArgs (snd (SoftSetBoolArg a m b)) n =
     (if n = m \<and> \<not> IsArgSet a m then [if b then ''1'' else ''0''] else GetArgs a n)"
  by (simp add: snd_SoftSetBoolArg GetArgs_def IsArgSet_def)

lemma IsArgSet_SoftSet:
  "IsArgSet (snd (SoftSetBoolArg a m b)) n = (n = m \<or> IsArgSet a n)"
  by (simp add: snd_SoftSetBoolArg IsArgSet_def)

lemma GetBoolArg_SoftSet_same:
  "GetBoolArg (snd (SoftSetBoolArg a n b)) n d = (if IsArgSet a n then GetBoolArg a n d else b)"
  by (simp add: snd_SoftSetBoolArg GetBoolArg_def IsArgSet_def InterpretBool_1 InterpretBool_0)

text \<open>
  C4. With wallets enabled and \<open>-zapwallettxes\<close> given as mode 1 or 2: with more than
  one \<open>-wallet\<close> value parameter interaction fails with the error for a single wallet
  file (it names \<open>-salvagewallet\<close> when that option is true as well, its check coming
  first, and \<open>-zapwallettxes\<close> otherwise). With at most one \<open>-wallet\<close> value, so with
  exactly one, \<open>-rescan\<close> is left as the user set it and is 1 otherwise,
  \<open>-persistmempool\<close> is left as the user set it and is 0 otherwise, and parameter
  interaction succeeds unless one of the two rules left fails: \<open>-sysperms\<close>, or
  pruning together with the rescan that results.
\<close>

theorem zapwallettxes_interaction:
  assumes enabled: "\<not> GetBoolArg a ''-disablewallet'' (DEFAULT_DISABLE_WALLET k)"
      and zap: "GetArg a ''-zapwallettxes'' '''' = ''1'' \<or> GetArg a ''-zapwallettxes'' '''' = ''2''"
  shows "(length (GetArgs a ''-wallet'') > 1 \<longrightarrow>
            \<not> fst (ParameterInteraction k fee a) \<and>
            snd (snd (ParameterInteraction k fee a)) =
              [InitError (SingleWalletOnly
                 (if GetBoolArg a ''-salvagewallet'' False then ''-salvagewallet''
                  else ''-zapwallettxes''))])
       \<and> (length (GetArgs a ''-wallet'') \<le> 1 \<longrightarrow>
            GetArgs (fst (snd (ParameterInteraction k fee a))) ''-rescan'' =
              (if IsArgSet a ''-rescan'' then GetArgs a ''-rescan'' else [''1''])
          \<and> GetArgs (fst (snd (ParameterInteraction k fee a))) ''-persistmempool'' =
              (if IsArgSet a ''-persistmempool'' then GetArgs a ''-persistmempool'' else [''0''])
          \<and> fst (ParameterInteraction k fee a) =
              (\<not> GetBoolArg a ''-sysperms'' False \<and>
               \<not> (GetIntArg a ''-prune'' 0 \<noteq> 0 \<and>
                   (if IsArgSet a ''-rescan'' then GetBoolArg a ''-rescan'' False else True))))"
proof -
  have z: "GetBoolArg a ''-zapwallettxes'' False"
    using zap by (rule GetBoolArg_mode)
  show ?thesis
    using enabled z
    by (cases "GetBoolArg a ''-blocksonly'' (DEFAULT_BLOCKSONLY k)";
        cases "GetBoolArg a ''-salvagewallet'' False";
        cases "length (GetArgs a ''-wallet'') > 1";
        cases "GetBoolArg a ''-sysperms'' False")
       (simp_all add: ParameterInteraction_def Let_def GetBoolArg_SoftSet_other
          GetIntArg_SoftSet_other GetArgs_SoftSet IsArgSet_SoftSet GetBoolArg_SoftSet_same)
qed

theorem zapwallettxes_interaction_witness:
  "\<not> GetBoolArg args_zap_two_wallets ''-disablewallet'' (DEFAULT_DISABLE_WALLET node_consts)
   \<and> GetArg args_zap_two_wallets ''-zapwallettxes'' '''' = ''1''
   \<and> length (GetArgs args_zap_two_wallets ''-wallet'') > 1
   \<and> \<not> fst (ParameterInteraction node_consts 0 args_zap_two_wallets)
   \<and> snd (snd (ParameterInteraction node_consts 0 args_zap_two_wallets))
       = [InitError (SingleWalletOnly ''-zapwallettxes'')]
   \<and> \<not> GetBoolArg args_zap_one_wallet ''-disablewallet'' (DEFAULT_DISABLE_WALLET node_consts)
   \<and> GetArg args_zap_one_wallet ''-zapwallettxes'' '''' = ''2''
   \<and> length (GetArgs args_zap_one_wallet ''-wallet'') = 1
   \<and> GetArgs (fst (snd (ParameterInteraction node_consts 0 args_zap_one_wallet))) ''-rescan''
       = [''1'']
   \<and> GetArgs (fst (snd (ParameterInteraction node_consts 0 args_zap_one_wallet)))
         ''-persistmempool'' = [''0'']
   \<and> fst (ParameterInteraction node_consts 0 args_zap_one_wallet)"
proof -
  have e1: "\<not> GetBoolArg args_zap_two_wallets ''-disablewallet''
                (DEFAULT_DISABLE_WALLET node_consts)"
    by (simp add: args_zap_two_wallets_def no_args_def node_consts_def store_defs)
  have z1: "GetArg args_zap_two_wallets ''-zapwallettxes'' '''' = ''1''"
    by (simp add: args_zap_two_wallets_def no_args_def store_defs)
  have m1: "length (GetArgs args_zap_two_wallets ''-wallet'') > 1"
    by (simp add: args_zap_two_wallets_def no_args_def store_defs)
  have s1: "\<not> GetBoolArg args_zap_two_wallets ''-salvagewallet'' False"
    by (simp add: args_zap_two_wallets_def no_args_def store_defs)
  have e2: "\<not> GetBoolArg args_zap_one_wallet ''-disablewallet''
                (DEFAULT_DISABLE_WALLET node_consts)"
    by (simp add: args_zap_one_wallet_def no_args_def node_consts_def store_defs)
  have z2: "GetArg args_zap_one_wallet ''-zapwallettxes'' '''' = ''2''"
    by (simp add: args_zap_one_wallet_def no_args_def store_defs)
  have m2: "length (GetArgs args_zap_one_wallet ''-wallet'') = 1"
    by (simp add: args_zap_one_wallet_def no_args_def store_defs)
  have r2: "\<not> IsArgSet args_zap_one_wallet ''-rescan''"
    by (simp add: args_zap_one_wallet_def no_args_def store_defs)
  have p2: "\<not> IsArgSet args_zap_one_wallet ''-persistmempool''"
    by (simp add: args_zap_one_wallet_def no_args_def store_defs)
  have y2: "\<not> GetBoolArg args_zap_one_wallet ''-sysperms'' False"
    by (simp add: args_zap_one_wallet_def no_args_def store_defs)
  have q2: "GetIntArg args_zap_one_wallet ''-prune'' 0 = 0"
    by (simp add: args_zap_one_wallet_def no_args_def store_defs)
  from zapwallettxes_interaction [OF e1 disjI1 [OF z1], of 0] m1 s1
       zapwallettxes_interaction [OF e2 disjI2 [OF z2], of 0] m2 r2 p2 y2 q2
  show ?thesis using e1 z1 e2 z2 by simp
qed


section \<open>Parameter interaction: what an error leaves in the store\<close>

lemma ParameterInteraction_blocksonly_salvage_two_wallets:
  "ParameterInteraction node_consts 0 args_blocksonly_salvage_two_wallets =
     (False, snd (SoftSetBoolArg args_blocksonly_salvage_two_wallets ''-walletbroadcast'' False),
      [InitError (SingleWalletOnly ''-salvagewallet'')])"
proof -
  let ?a = args_blocksonly_salvage_two_wallets
  have e: "\<not> GetBoolArg ?a ''-disablewallet'' (DEFAULT_DISABLE_WALLET node_consts)"
    by (simp add: args_blocksonly_salvage_two_wallets_def no_args_def node_consts_def store_defs)
  have b: "GetBoolArg ?a ''-blocksonly'' (DEFAULT_BLOCKSONLY node_consts)"
    by (simp add: args_blocksonly_salvage_two_wallets_def no_args_def store_defs InterpretBool_1)
  have s: "GetBoolArg ?a ''-salvagewallet'' False"
    by (simp add: args_blocksonly_salvage_two_wallets_def no_args_def store_defs InterpretBool_1)
  have m: "length (GetArgs ?a ''-wallet'') > 1"
    by (simp add: args_blocksonly_salvage_two_wallets_def no_args_def store_defs)
  show ?thesis
    using e b s m by (simp add: ParameterInteraction_def Let_def GetBoolArg_SoftSet_other)
qed

text \<open>
  C5, as stated, fails: with two wallets, \<open>-blocksonly=1\<close> and \<open>-salvagewallet=1\<close>,
  parameter interaction returns the error for \<open>-salvagewallet\<close>, and the store it leaves
  is not the store it started with: \<open>-walletbroadcast\<close>, which was not set, is 0.
\<close>

theorem validation_error_changes_store:
  "\<not> fst (ParameterInteraction node_consts 0 args_blocksonly_salvage_two_wallets)
   \<and> fst (snd (ParameterInteraction node_consts 0 args_blocksonly_salvage_two_wallets))
       \<noteq> args_blocksonly_salvage_two_wallets
   \<and> GetArgs args_blocksonly_salvage_two_wallets ''-walletbroadcast'' = []
   \<and> GetArgs (fst (snd (ParameterInteraction node_consts 0
                            args_blocksonly_salvage_two_wallets))) ''-walletbroadcast'' = [''0'']"
proof -
  let ?a = args_blocksonly_salvage_two_wallets
  have w0: "?a ''-walletbroadcast'' = []"
    by (simp add: args_blocksonly_salvage_two_wallets_def no_args_def)
  have w1: "snd (SoftSetBoolArg ?a ''-walletbroadcast'' False) ''-walletbroadcast'' = [''0'']"
    using w0 by (simp add: snd_SoftSetBoolArg)
  have "snd (SoftSetBoolArg ?a ''-walletbroadcast'' False) \<noteq> ?a"
  proof
    assume "snd (SoftSetBoolArg ?a ''-walletbroadcast'' False) = ?a"
    then have "snd (SoftSetBoolArg ?a ''-walletbroadcast'' False) ''-walletbroadcast''
                 = ?a ''-walletbroadcast''" by simp
    with w0 w1 show False by simp
  qed
  with w0 w1 show ?thesis
    by (simp add: ParameterInteraction_blocksonly_salvage_two_wallets GetArgs_def)
qed

text \<open>
  C5, amended. When parameter interaction returns an error, the store it leaves differs
  from the store it started with by soft-sets only: every option that was set, and every
  option other than \<open>-walletbroadcast\<close>, \<open>-rescan\<close> and \<open>-persistmempool\<close>, has the
  values it had; each of these three either has the values it had or is 0, 1 and 0.
\<close>

theorem validation_error_only_soft_sets:
  assumes failed: "\<not> fst (ParameterInteraction k fee a)"
  shows "(\<forall>n. IsArgSet a n \<or> n \<notin> {''-walletbroadcast'', ''-rescan'', ''-persistmempool''} \<longrightarrow>
              GetArgs (fst (snd (ParameterInteraction k fee a))) n = GetArgs a n)
       \<and> GetArgs (fst (snd (ParameterInteraction k fee a))) ''-walletbroadcast''
            \<in> {GetArgs a ''-walletbroadcast'', [''0'']}
       \<and> GetArgs (fst (snd (ParameterInteraction k fee a))) ''-rescan''
            \<in> {GetArgs a ''-rescan'', [''1'']}
       \<and> GetArgs (fst (snd (ParameterInteraction k fee a))) ''-persistmempool''
            \<in> {GetArgs a ''-persistmempool'', [''0'']}"
  by (cases "GetBoolArg a ''-disablewallet'' (DEFAULT_DISABLE_WALLET k)";
      cases "GetBoolArg a ''-blocksonly'' (DEFAULT_BLOCKSONLY k)";
      cases "GetBoolArg a ''-salvagewallet'' False";
      cases "GetBoolArg a ''-zapwallettxes'' False";
      cases "length (GetArgs a ''-wallet'') > 1")
     (simp_all add: ParameterInteraction_def Let_def GetBoolArg_SoftSet_other
        GetIntArg_SoftSet_other GetArgs_SoftSet IsArgSet_SoftSet GetBoolArg_SoftSet_same)

theorem validation_error_only_soft_sets_witness:
  "\<not> fst (ParameterInteraction node_consts 0 args_blocksonly_salvage_two_wallets)
   \<and> IsArgSet args_blocksonly_salvage_two_wallets ''-wallet''
   \<and> GetArgs (fst (snd (ParameterInteraction node_consts 0
                            args_blocksonly_salvage_two_wallets))) ''-wallet''
       = [''alice'', ''bob'']
   \<and> GetArgs (fst (snd (ParameterInteraction node_consts 0
                            args_blocksonly_salvage_two_wallets))) ''-rescan'' = []"
proof -
  let ?a = args_blocksonly_salvage_two_wallets
  have f: "\<not> fst (ParameterInteraction node_consts 0 ?a)"
    by (simp add: ParameterInteraction_blocksonly_salvage_two_wallets)
  have w: "IsArgSet ?a ''-wallet''"
    by (simp add: args_blocksonly_salvage_two_wallets_def no_args_def store_defs)
  have v: "GetArgs ?a ''-wallet'' = [''alice'', ''bob'']"
    by (simp add: args_blocksonly_salvage_two_wallets_def no_args_def store_defs)
  have r0: "?a ''-rescan'' = []"
    by (simp add: args_blocksonly_salvage_two_wallets_def no_args_def)
  have r: "GetArgs (fst (snd (ParameterInteraction node_consts 0 ?a))) ''-rescan'' = []"
    using r0
    by (simp add: ParameterInteraction_blocksonly_salvage_two_wallets snd_SoftSetBoolArg
          GetArgs_def)
  from validation_error_only_soft_sets [OF f] have
    "IsArgSet ?a ''-wallet'' \<longrightarrow>
       GetArgs (fst (snd (ParameterInteraction node_consts 0 ?a))) ''-wallet''
         = GetArgs ?a ''-wallet''"
    by blast
  with f w v r show ?thesis by simp
qed


section \<open>Verification: the wallet directory\<close>

lemma IsArgSet_no_args: "\<not> IsArgSet no_args n"
  by (simp add: IsArgSet_def no_args_def)

lemma GetBoolArg_no_args: "GetBoolArg no_args n d = d"
  by (simp add: GetBoolArg_def IsArgSet_no_args)

lemma sample_location_no_args: "sample_location no_args f = ''/data/'' @ f"
  by (simp add: sample_location_def GetArg_def IsArgSet_no_args)

lemma GetArg_args_walletdir: "GetArg (args_walletdir dir) ''-walletdir'' d = dir"
  by (simp add: GetArg_def IsArgSet_def args_walletdir_def)

lemma IsArgSet_args_walletdir: "IsArgSet (args_walletdir dir) ''-walletdir''"
  by (simp add: IsArgSet_def args_walletdir_def)

lemma GetBoolArg_ForceSet_other:
  "n \<noteq> m \<Longrightarrow> GetBoolArg (ForceSetArg a m v) n d = GetBoolArg a n d"
  by (simp add: ForceSetArg_def GetBoolArg_upd_other)

text \<open>
  C8. When \<open>-walletdir\<close> is set, \<open>VerifyWallets\<close> checks it three ways, in this order.
  When it cannot be made canonical or does not exist, the result is false with the error
  that it does not exist; when it is not a directory, false with the error that it is not
  a directory; when it is not absolute, false with the error that it is a relative path.
  The three errors differ, and in each case the error is all that was done: no location
  was resolved, no wallet verified, and the store is as it was. When the three checks
  pass, \<open>-walletdir\<close> in the store is its canonical form, and the wallet files are
  resolved and verified with that store.
\<close>

theorem walletdir_checks:
  assumes isset: "IsArgSet a ''-walletdir''"
  shows "(canonical fs (GetArg a ''-walletdir'' '''') = None \<or> \<not> exists fs (GetArg a ''-walletdir'' '''') \<longrightarrow>
           VerifyWallets fs wl V a wfs =
             (False, a, [Message (InitError (WalletDirDoesNotExist (GetArg a ''-walletdir'' '''')))]))
       \<and> (canonical fs (GetArg a ''-walletdir'' '''') \<noteq> None \<and> exists fs (GetArg a ''-walletdir'' '''')
            \<and> \<not> is_directory fs (GetArg a ''-walletdir'' '''') \<longrightarrow>
           VerifyWallets fs wl V a wfs =
             (False, a, [Message (InitError (WalletDirNotADirectory (GetArg a ''-walletdir'' '''')))]))
       \<and> (canonical fs (GetArg a ''-walletdir'' '''') \<noteq> None \<and> exists fs (GetArg a ''-walletdir'' '''')
            \<and> is_directory fs (GetArg a ''-walletdir'' '''')
            \<and> \<not> is_absolute fs (GetArg a ''-walletdir'' '''') \<longrightarrow>
           VerifyWallets fs wl V a wfs =
             (False, a, [Message (InitError (WalletDirRelativePath (GetArg a ''-walletdir'' '''')))]))
       \<and> (\<forall>c. canonical fs (GetArg a ''-walletdir'' '''') = Some c \<and> exists fs (GetArg a ''-walletdir'' '''')
            \<and> is_directory fs (GetArg a ''-walletdir'' '''')
            \<and> is_absolute fs (GetArg a ''-walletdir'' '''') \<longrightarrow>
           VerifyWallets fs wl V a wfs =
             verify_wallet_files wl V (ForceSetArg a ''-walletdir'' c) wfs
           \<and> fst (snd (VerifyWallets fs wl V a wfs)) = ForceSetArg a ''-walletdir'' c
           \<and> GetArgs (fst (snd (VerifyWallets fs wl V a wfs))) ''-walletdir'' = [c])
       \<and> WalletDirDoesNotExist d \<noteq> WalletDirNotADirectory d
       \<and> WalletDirDoesNotExist d \<noteq> WalletDirRelativePath d
       \<and> WalletDirNotADirectory d \<noteq> WalletDirRelativePath d"
  using isset
  by (auto simp: VerifyWallets_def Let_def verify_wallet_files_def ForceSetArg_def GetArgs_def
      split: option.splits prod.splits)

theorem walletdir_checks_witness:
  "IsArgSet (args_walletdir ''/nowhere'') ''-walletdir''
   \<and> VerifyWallets sample_fs sample_location sample_verify (args_walletdir ''/nowhere'') [''bob'']
       = (False, args_walletdir ''/nowhere'',
          [Message (InitError (WalletDirDoesNotExist ''/nowhere''))])
   \<and> VerifyWallets sample_fs sample_location sample_verify (args_walletdir ''/data/peers.dat'')
         [''bob'']
       = (False, args_walletdir ''/data/peers.dat'',
          [Message (InitError (WalletDirNotADirectory ''/data/peers.dat''))])
   \<and> VerifyWallets sample_fs sample_location sample_verify (args_walletdir ''wallets'') [''bob'']
       = (False, args_walletdir ''wallets'',
          [Message (InitError (WalletDirRelativePath ''wallets''))])
   \<and> GetArgs (fst (snd (VerifyWallets sample_fs sample_location sample_verify
                          (args_walletdir ''/data/./wallets'') [''bob''])))
        ''-walletdir'' = [''/data/wallets'']"
proof -
  note s = IsArgSet_args_walletdir
  have c1: "canonical sample_fs ''/nowhere'' = None"
    by (simp add: sample_fs_def)
  have c2: "canonical sample_fs ''/data/peers.dat'' \<noteq> None \<and> exists sample_fs ''/data/peers.dat''
            \<and> \<not> is_directory sample_fs ''/data/peers.dat''"
    by (simp add: sample_fs_def)
  have c3: "canonical sample_fs ''wallets'' \<noteq> None \<and> exists sample_fs ''wallets''
            \<and> is_directory sample_fs ''wallets'' \<and> \<not> is_absolute sample_fs ''wallets''"
    by (simp add: sample_fs_def)
  have c4: "canonical sample_fs ''/data/./wallets'' = Some ''/data/wallets''
            \<and> exists sample_fs ''/data/./wallets''
            \<and> is_directory sample_fs ''/data/./wallets''
            \<and> is_absolute sample_fs ''/data/./wallets''"
    by (simp add: sample_fs_def)
  note w = walletdir_checks [of _ sample_fs sample_location sample_verify "[''bob'']",
                              OF s, unfolded GetArg_args_walletdir]
  have r1: "VerifyWallets sample_fs sample_location sample_verify (args_walletdir ''/nowhere'')
              [''bob'']
       = (False, args_walletdir ''/nowhere'',
          [Message (InitError (WalletDirDoesNotExist ''/nowhere''))])"
    using w [of "''/nowhere''"] c1 by blast
  have r2: "VerifyWallets sample_fs sample_location sample_verify
              (args_walletdir ''/data/peers.dat'') [''bob'']
       = (False, args_walletdir ''/data/peers.dat'',
          [Message (InitError (WalletDirNotADirectory ''/data/peers.dat''))])"
    using w [of "''/data/peers.dat''"] c2 by blast
  have r3: "VerifyWallets sample_fs sample_location sample_verify (args_walletdir ''wallets'')
              [''bob'']
       = (False, args_walletdir ''wallets'',
          [Message (InitError (WalletDirRelativePath ''wallets''))])"
    using w [of "''wallets''"] c3 by blast
  have r4: "GetArgs (fst (snd (VerifyWallets sample_fs sample_location sample_verify
                          (args_walletdir ''/data/./wallets'') [''bob''])))
        ''-walletdir'' = [''/data/wallets'']"
    using w [of "''/data/./wallets''"] c4 by blast
  from s r1 r2 r3 r4 show ?thesis by blast
qed


section \<open>Verification: the loop over the wallet files\<close>

lemma fst_verify_wallet: "fst (verify_wallet G V sw f) = fst (V (G f) sw)"
  by (simp add: verify_wallet_def split: prod.splits)

lemma verify_loop_prefix:
  assumes "distinct (map G pre)" and "G ` set pre \<inter> paths = {}"
      and "\<forall>f \<in> set pre. fst (V (G f) sw)"
  shows "verify_loop G V sw paths (pre @ rest) =
           (fst (verify_loop G V sw (paths \<union> G ` set pre) rest),
            concat (map (\<lambda>f. ResolveLocation f # snd (verify_wallet G V sw f)) pre)
            @ snd (verify_loop G V sw (paths \<union> G ` set pre) rest))"
  using assms
proof (induction pre arbitrary: paths)
  case Nil
  then show ?case by simp
next
  case (Cons f pre)
  have ok: "fst (verify_wallet G V sw f)"
    using Cons.prems(3) by (simp add: fst_verify_wallet)
  have notin: "G f \<notin> paths"
    using Cons.prems(2) by auto
  have d: "distinct (map G pre)" and i: "G ` set pre \<inter> insert (G f) paths = {}"
    and v: "\<forall>f \<in> set pre. fst (V (G f) sw)"
    using Cons.prems by auto
  have u: "insert (G f) paths \<union> G ` set pre = paths \<union> G ` set (f # pre)"
    by auto
  show ?case
    using ok notin Cons.IH [OF d i v] u
    by (cases "verify_wallet G V sw f") (simp add: case_prod_beta)
qed

lemma VerifyWallets_dir_ok:
  assumes "IsArgSet a ''-walletdir'' \<longrightarrow>
             canonical fs (GetArg a ''-walletdir'' '''') \<noteq> None
             \<and> exists fs (GetArg a ''-walletdir'' '''')
             \<and> is_directory fs (GetArg a ''-walletdir'' '''')
             \<and> is_absolute fs (GetArg a ''-walletdir'' '''')"
  shows "snd (snd (VerifyWallets fs wl V a wfs)) =
           snd (verify_loop (wl (fst (snd (VerifyWallets fs wl V a wfs)))) V
             (GetBoolArg a ''-salvagewallet'' False \<and> length wfs \<le> 1) {} wfs)
         \<and> fst (VerifyWallets fs wl V a wfs) =
           fst (verify_loop (wl (fst (snd (VerifyWallets fs wl V a wfs)))) V
             (GetBoolArg a ''-salvagewallet'' False \<and> length wfs \<le> 1) {} wfs)"
  using assms
  by (auto simp: VerifyWallets_def Let_def verify_wallet_files_def GetBoolArg_ForceSet_other
      split: option.splits prod.splits)


section \<open>Verification: the salvage flag\<close>
















section \<open>Verification: errors of a wallet and duplicates\<close>

text \<open>
  C2, as stated, fails: with the wallet files \<open>alice\<close> and \<open>bob\<close>, where the
  verification of \<open>alice\<close> fails with an error string, \<open>VerifyWallets\<close> shows the
  error and returns false; \<open>bob\<close> is neither resolved nor verified.
\<close>

theorem verify_error_aborts:
  "VerifyWallets sample_fs sample_location sample_verify no_args [''alice'', ''bob''] =
     (False, no_args,
      [ResolveLocation ''alice'', CallVerify ''/data/alice'' False,
       Message (InitError (VerifyErrorString ''corrupt''))])"
  by (simp add: VerifyWallets_def IsArgSet_no_args verify_wallet_files_def GetBoolArg_no_args
      sample_location_no_args verify_wallet_def sample_verify_def)

text \<open>
  C2, amended. Let the check of \<open>-walletdir\<close> pass, let \<open>G\<close> be the path of a wallet
  file and \<open>sw\<close> the salvage flag, and let \<open>pre\<close> be wallet files at the start of the
  list with different paths whose verification succeeds. Then the wallets of \<open>pre\<close> are
  verified in order, and for each wallet verified the error string and the warning string
  are shown when they are not empty. When \<open>pre\<close> is the whole list, verification
  succeeds. When the next wallet file has a new path and its verification fails,
  \<open>VerifyWallets\<close> returns false right after the messages of that wallet; when the
  next wallet file has the path of a wallet file of \<open>pre\<close>, \<open>VerifyWallets\<close> returns
  false right after the duplicate error that names it. In both cases nothing is done for
  the wallet files after it.
\<close>

theorem verify_stops_at_failed_wallet:
  assumes dir_ok: "IsArgSet a ''-walletdir'' \<longrightarrow>
             canonical fs (GetArg a ''-walletdir'' '''') \<noteq> None
             \<and> exists fs (GetArg a ''-walletdir'' '''')
             \<and> is_directory fs (GetArg a ''-walletdir'' '''')
             \<and> is_absolute fs (GetArg a ''-walletdir'' '''')"
      and G: "G = wl (fst (snd (VerifyWallets fs wl V a wfs)))"
      and sw: "sw = (GetBoolArg a ''-salvagewallet'' False \<and> length wfs \<le> 1)"
      and wfs: "wfs = pre @ rest"
      and pre_distinct: "distinct (map G pre)"
      and pre_ok: "\<forall>f \<in> set pre. fst (V (G f) sw)"
  shows "(rest = [] \<longrightarrow>
            fst (VerifyWallets fs wl V a wfs) \<and>
            snd (snd (VerifyWallets fs wl V a wfs)) =
              concat (map (\<lambda>f. ResolveLocation f # snd (verify_wallet G V sw f)) pre))
       \<and> (\<forall>w post. rest = w # post \<and> G w \<notin> G ` set pre \<and> \<not> fst (V (G w) sw) \<longrightarrow>
            \<not> fst (VerifyWallets fs wl V a wfs) \<and>
            snd (snd (VerifyWallets fs wl V a wfs)) =
              concat (map (\<lambda>f. ResolveLocation f # snd (verify_wallet G V sw f)) pre)
              @ ResolveLocation w # snd (verify_wallet G V sw w))
       \<and> (\<forall>w post. rest = w # post \<and> G w \<in> G ` set pre \<longrightarrow>
            \<not> fst (VerifyWallets fs wl V a wfs) \<and>
            snd (snd (VerifyWallets fs wl V a wfs)) =
              concat (map (\<lambda>f. ResolveLocation f # snd (verify_wallet G V sw f)) pre)
              @ [ResolveLocation w, Message (InitError (DuplicateWalletFilename w))])
       \<and> (\<forall>f ok err warn. V (G f) sw = (ok, err, warn) \<longrightarrow>
            CallVerify (G f) sw \<in> set (snd (verify_wallet G V sw f)) \<and>
            (err \<noteq> [] \<longrightarrow>
               Message (InitError (VerifyErrorString err)) \<in> set (snd (verify_wallet G V sw f))) \<and>
            (warn \<noteq> [] \<longrightarrow>
               Message (InitWarning (VerifyWarningString warn))
                 \<in> set (snd (verify_wallet G V sw f))))"
proof -
  let ?R = "VerifyWallets fs wl V a wfs"
  let ?evs = "concat (map (\<lambda>f. ResolveLocation f # snd (verify_wallet G V sw f)) pre)"
  from VerifyWallets_dir_ok [OF dir_ok, of wl V wfs]
  have R: "snd (snd ?R) = snd (verify_loop G V sw {} wfs)"
      and F: "fst ?R = fst (verify_loop G V sw {} wfs)"
    by (simp_all add: G sw)
  have P: "verify_loop G V sw {} (pre @ rest) =
             (fst (verify_loop G V sw (G ` set pre) rest),
              ?evs @ snd (verify_loop G V sw (G ` set pre) rest))"
    using verify_loop_prefix [of G pre "{}" V sw rest] pre_distinct pre_ok by simp
  have L: "verify_loop G V sw {} wfs =
             (fst (verify_loop G V sw (G ` set pre) rest),
              ?evs @ snd (verify_loop G V sw (G ` set pre) rest))"
    using P wfs by simp
  have R': "snd (snd ?R) = ?evs @ snd (verify_loop G V sw (G ` set pre) rest)"
    using R L by simp
  have F': "fst ?R = fst (verify_loop G V sw (G ` set pre) rest)"
    using F L by simp
  have 1: "rest = [] \<longrightarrow> fst ?R \<and> snd (snd ?R) = ?evs"
    using R' F' by simp
  have 2: "\<forall>w post. rest = w # post \<and> G w \<notin> G ` set pre \<and> \<not> fst (V (G w) sw) \<longrightarrow>
            \<not> fst ?R \<and> snd (snd ?R) = ?evs @ ResolveLocation w # snd (verify_wallet G V sw w)"
    using R' F' by (auto simp: fst_verify_wallet [symmetric] split: prod.splits)
  have 3: "\<forall>w post. rest = w # post \<and> G w \<in> G ` set pre \<longrightarrow>
            \<not> fst ?R \<and> snd (snd ?R) =
              ?evs @ [ResolveLocation w, Message (InitError (DuplicateWalletFilename w))]"
    using R' F' by auto
  have 4: "\<forall>f ok err warn. V (G f) sw = (ok, err, warn) \<longrightarrow>
            CallVerify (G f) sw \<in> set (snd (verify_wallet G V sw f)) \<and>
            (err \<noteq> [] \<longrightarrow>
               Message (InitError (VerifyErrorString err)) \<in> set (snd (verify_wallet G V sw f))) \<and>
            (warn \<noteq> [] \<longrightarrow>
               Message (InitWarning (VerifyWarningString warn))
                 \<in> set (snd (verify_wallet G V sw f)))"
    by (simp add: verify_wallet_def)
  from 1 2 3 4 show ?thesis by blast
qed

lemma VerifyWallets_no_args_store:
  "fst (snd (VerifyWallets fs wl V no_args wfs)) = no_args"
  by (simp add: VerifyWallets_def IsArgSet_no_args verify_wallet_files_def split: prod.splits)

theorem verify_stops_at_failed_wallet_witness:
  "\<not> fst (VerifyWallets sample_fs sample_location sample_verify no_args
             [''bob'', ''alice'', ''carol''])
   \<and> snd (snd (VerifyWallets sample_fs sample_location sample_verify no_args
                 [''bob'', ''alice'', ''carol''])) =
       [ResolveLocation ''bob'', CallVerify ''/data/bob'' False,
        Message (InitWarning (VerifyWarningString ''old'')),
        ResolveLocation ''alice'', CallVerify ''/data/alice'' False,
        Message (InitError (VerifyErrorString ''corrupt''))]
   \<and> \<not> fst (VerifyWallets sample_fs sample_location sample_verify no_args [''bob'', ''bob''])
   \<and> snd (snd (VerifyWallets sample_fs sample_location sample_verify no_args
                 [''bob'', ''bob''])) =
       [ResolveLocation ''bob'', CallVerify ''/data/bob'' False,
        Message (InitWarning (VerifyWarningString ''old'')),
        ResolveLocation ''bob'', Message (InitError (DuplicateWalletFilename ''bob''))]"
proof -
  let ?G = "sample_location no_args"
  have d: "IsArgSet no_args ''-walletdir'' \<longrightarrow>
             canonical sample_fs (GetArg no_args ''-walletdir'' '''') \<noteq> None
             \<and> exists sample_fs (GetArg no_args ''-walletdir'' '''')
             \<and> is_directory sample_fs (GetArg no_args ''-walletdir'' '''')
             \<and> is_absolute sample_fs (GetArg no_args ''-walletdir'' '''')"
    by (simp add: IsArgSet_no_args)
  have g: "?G = sample_location (fst (snd (VerifyWallets sample_fs sample_location
                   sample_verify no_args wfs)))" for wfs
    by (simp add: VerifyWallets_no_args_store)
  have s1: "False = (GetBoolArg no_args ''-salvagewallet'' False
                     \<and> length [''bob'', ''alice'', ''carol''] \<le> 1)"
    by (simp add: GetBoolArg_no_args)
  have s2: "False = (GetBoolArg no_args ''-salvagewallet'' False
                     \<and> length [''bob'', ''bob''] \<le> 1)"
    by (simp add: GetBoolArg_no_args)
  have w1: "[''bob'', ''alice'', ''carol''] = [''bob''] @ [''alice'', ''carol'']"
    by simp
  have w2: "[''bob'', ''bob''] = [''bob''] @ [''bob'']"
    by simp
  have p: "distinct (map ?G [''bob''])"
    by simp
  have o: "\<forall>f \<in> set [''bob'']. fst (sample_verify (?G f) False)"
    by (simp add: sample_location_no_args sample_verify_def)
  have a: "?G ''alice'' \<notin> ?G ` set [''bob''] \<and> \<not> fst (sample_verify (?G ''alice'') False)"
    by (simp add: sample_location_no_args sample_verify_def)
  have b: "?G ''bob'' \<in> ?G ` set [''bob'']"
    by simp
  note T1 = verify_stops_at_failed_wallet
         [where a = no_args and fs = sample_fs and wl = sample_location and V = sample_verify
            and G = "?G" and sw = False and wfs = "[''bob'', ''alice'', ''carol'']"
            and pre = "[''bob'']" and rest = "[''alice'', ''carol'']", OF d g s1 w1 p o]
  note T2 = verify_stops_at_failed_wallet
         [where a = no_args and fs = sample_fs and wl = sample_location and V = sample_verify
            and G = "?G" and sw = False and wfs = "[''bob'', ''bob'']"
            and pre = "[''bob'']" and rest = "[''bob'']", OF d g s2 w2 p o]
  have r1: "\<not> fst (VerifyWallets sample_fs sample_location sample_verify no_args
                    [''bob'', ''alice'', ''carol''])
            \<and> snd (snd (VerifyWallets sample_fs sample_location sample_verify no_args
                    [''bob'', ''alice'', ''carol''])) =
              concat (map (\<lambda>f. ResolveLocation f # snd (verify_wallet ?G sample_verify False f))
                        [''bob''])
              @ ResolveLocation ''alice'' # snd (verify_wallet ?G sample_verify False ''alice'')"
    by (rule T1 [THEN conjunct2, THEN conjunct1, rule_format, of "''alice''" "[''carol'']"])
       (use a in simp)
  have r2: "\<not> fst (VerifyWallets sample_fs sample_location sample_verify no_args
                    [''bob'', ''bob''])
            \<and> snd (snd (VerifyWallets sample_fs sample_location sample_verify no_args
                    [''bob'', ''bob''])) =
              concat (map (\<lambda>f. ResolveLocation f # snd (verify_wallet ?G sample_verify False f))
                        [''bob''])
              @ [ResolveLocation ''bob'', Message (InitError (DuplicateWalletFilename ''bob''))]"
    by (rule T2 [THEN conjunct2, THEN conjunct2, THEN conjunct1, rule_format, of "''bob''" "[]"])
       (use b in simp)
  have v1: "snd (verify_wallet ?G sample_verify False ''bob'') =
              [CallVerify ''/data/bob'' False, Message (InitWarning (VerifyWarningString ''old''))]"
    by (simp add: verify_wallet_def sample_location_no_args sample_verify_def)
  have v2: "snd (verify_wallet ?G sample_verify False ''alice'') =
              [CallVerify ''/data/alice'' False, Message (InitError (VerifyErrorString ''corrupt''))]"
    by (simp add: verify_wallet_def sample_location_no_args sample_verify_def)
  from r1 r2 show ?thesis
    by (simp add: v1 v2)
qed


section \<open>Construction: the copy of the legacy wallet\<close>

lemma sample_paths:
  "path_append (GetDataDir sample_dirs) ''peers.dat'' = ''/data/peers.dat''"
  "path_append (GetDataDir sample_dirs) ''wallet.dat'' = ''/data/wallet.dat''"
  "path_append (GetWalletDir sample_dirs) ''wallet.dat'' = ''/data/wallets/wallet.dat''"
  "path_append (GetDefaultDataDirLegacy sample_dirs) ''wallet.dat'' = ''/legacy/wallet.dat''"
  by (simp_all add: path_append_def sample_dirs_def)

lemma files_node_first_run:
  "files (node_first_run a) ''/data/peers.dat'' = None"
  "files (node_first_run a) ''/data/wallet.dat'' = None"
  "files (node_first_run a) ''/data/wallets/wallet.dat'' = None"
  "files (node_first_run a) ''/legacy/wallet.dat'' = Some ''keys''"
  by (simp_all add: node_first_run_def)

text \<open>
  C7, as stated, fails: on a first run with wallets disabled (\<open>-disablewallet=1\<close>),
  where neither default wallet file exists and the legacy wallet file exists,
  \<open>Construct\<close> returns at once and copies nothing.
\<close>

theorem disabled_wallet_no_copy:
  "files (node_first_run args_disablewallet)
     (path_append (GetDataDir sample_dirs) ''peers.dat'') = None
   \<and> files (node_first_run args_disablewallet)
       (id (path_append (GetDataDir sample_dirs) ''wallet.dat'')) = None
   \<and> files (node_first_run args_disablewallet)
       (id (path_append (GetWalletDir sample_dirs) ''wallet.dat'')) = None
   \<and> files (node_first_run args_disablewallet)
       (id (path_append (GetDefaultDataDirLegacy sample_dirs) ''wallet.dat'')) \<noteq> None
   \<and> Construct node_consts sample_dirs id (node_first_run args_disablewallet)
       = Inr (node_first_run args_disablewallet)
   \<and> copies (node_first_run args_disablewallet) = []"
proof -
  have "GetBoolArg (gArgs (node_first_run args_disablewallet)) ''-disablewallet''
          (DEFAULT_DISABLE_WALLET node_consts)"
    by (simp add: node_first_run_def args_disablewallet_def GetBoolArg_def IsArgSet_def
        InterpretBool_1)
  then show ?thesis
    by (simp add: Construct_def sample_paths files_node_first_run) (simp add: node_first_run_def)
qed

lemma copy_legacy_wallet_result:
  "copy_legacy_wallet d G n =
     (if files n (path_append (GetDataDir d) ''peers.dat'') = None
         \<and> files n (G (path_append (GetDataDir d) ''wallet.dat'')) = None
         \<and> files n (G (path_append (GetWalletDir d) ''wallet.dat'')) = None
         \<and> files n (G (path_append (GetDefaultDataDirLegacy d) ''wallet.dat'')) \<noteq> None
      then Inr (n\<lparr>files := (files n)(G (path_append (GetWalletDir d) ''wallet.dat'') :=
                               files n (G (path_append (GetDefaultDataDirLegacy d) ''wallet.dat''))),
                  copies := copies n @ [(G (path_append (GetDefaultDataDirLegacy d) ''wallet.dat''),
                                         G (path_append (GetWalletDir d) ''wallet.dat''))]\<rparr>)
      else Inr n)"
  by (auto simp: copy_legacy_wallet_def Let_def copy_file_fail_if_exists_def split: option.splits)

text \<open>
  C7, amended. \<open>Construct\<close> copies the legacy wallet file to the default wallet file of
  the wallet directory if and only if wallets are enabled, it is a first run (there is no
  \<open>peers.dat\<close> in the data directory), neither the default wallet file of the data
  directory nor that of the wallet directory exists, and the legacy wallet file exists;
  otherwise it copies nothing and leaves the files as they are. The copy is one that
  fails, and does not overwrite, when its destination exists.
\<close>

theorem legacy_copy_when_enabled:
  "(case Construct k d G n of
      Inl e \<Rightarrow> False
    | Inr n' \<Rightarrow>
        if \<not> GetBoolArg (gArgs n) ''-disablewallet'' (DEFAULT_DISABLE_WALLET k)
           \<and> files n (path_append (GetDataDir d) ''peers.dat'') = None
           \<and> files n (G (path_append (GetDataDir d) ''wallet.dat'')) = None
           \<and> files n (G (path_append (GetWalletDir d) ''wallet.dat'')) = None
           \<and> files n (G (path_append (GetDefaultDataDirLegacy d) ''wallet.dat'')) \<noteq> None
        then copies n' = copies n
               @ [(G (path_append (GetDefaultDataDirLegacy d) ''wallet.dat''),
                   G (path_append (GetWalletDir d) ''wallet.dat''))]
           \<and> files n' = (files n)(G (path_append (GetWalletDir d) ''wallet.dat'') :=
                 files n (G (path_append (GetDefaultDataDirLegacy d) ''wallet.dat'')))
        else copies n' = copies n \<and> files n' = files n)
   \<and> (\<forall>(fls :: string \<rightharpoonup> 'c) src dst.
         fls dst \<noteq> None \<longrightarrow> copy_file_fail_if_exists fls src dst = Inl FilesystemError)"
  by (auto simp: Construct_def copy_legacy_wallet_result Let_def copy_file_fail_if_exists_def
      split: option.splits)

lemma no_args_not_disabled:
  "\<not> GetBoolArg (gArgs (node_first_run no_args)) ''-disablewallet''
        (DEFAULT_DISABLE_WALLET node_consts)"
  by (simp add: node_first_run_def GetBoolArg_no_args node_consts_def)

lemma Construct_first_run_no_args:
  "Construct node_consts sample_dirs id (node_first_run no_args) =
     Inr \<lparr>gArgs = no_args(''-wallet'' := ['''']),
          files = [''/legacy/wallet.dat'' \<mapsto> ''keys'', ''/data/wallets/wallet.dat'' \<mapsto> ''keys''],
          chain_clients = [ ['''']],
          copies = [(''/legacy/wallet.dat'', ''/data/wallets/wallet.dat'')]\<rparr>"
proof -
  have c: "copy_legacy_wallet sample_dirs id (node_first_run no_args) =
             Inr \<lparr>gArgs = no_args,
                  files = [''/legacy/wallet.dat'' \<mapsto> ''keys'',
                           ''/data/wallets/wallet.dat'' \<mapsto> ''keys''],
                  chain_clients = [],
                  copies = [(''/legacy/wallet.dat'', ''/data/wallets/wallet.dat'')]\<rparr>"
    by (simp add: copy_legacy_wallet_result sample_paths files_node_first_run)
       (simp add: node_first_run_def)
  show ?thesis
    using no_args_not_disabled
    by (simp add: Construct_def c SoftSetArg_def IsArgSet_no_args ForceSetArg_def GetArgs_def)
qed

theorem legacy_copy_when_enabled_witness:
  "case Construct node_consts sample_dirs id (node_first_run no_args) of
     Inl e \<Rightarrow> False
   | Inr n' \<Rightarrow>
       copies n' = [(''/legacy/wallet.dat'', ''/data/wallets/wallet.dat'')]
     \<and> files n' ''/data/wallets/wallet.dat'' = Some ''keys''
     \<and> copy_file_fail_if_exists (files n') ''/legacy/wallet.dat'' ''/data/wallets/wallet.dat''
         = Inl FilesystemError"
proof -
  let ?n = "node_first_run no_args"
  note T = legacy_copy_when_enabled [where k = node_consts and d = sample_dirs and G = id and n = ?n,
             unfolded sample_paths id_apply files_node_first_run]
  have x: "copy_file_fail_if_exists
             [''/legacy/wallet.dat'' \<mapsto> ''keys'', ''/data/wallets/wallet.dat'' \<mapsto> ''keys'']
             ''/legacy/wallet.dat'' ''/data/wallets/wallet.dat'' = Inl FilesystemError"
    by (rule T [THEN conjunct2, rule_format]) simp
  from T [THEN conjunct1] no_args_not_disabled x show ?thesis
    by (simp add: Construct_first_run_no_args)
qed


section \<open>Construction: the wallets of the wallet client\<close>

text \<open>
  C10. With wallets enabled, \<open>Construct\<close> adds one wallet client, and the list of
  wallet names it is made with is never empty: it is the one name \<open>""\<close> when no
  \<open>-wallet\<close> is configured, and the configured list, unchanged, otherwise. The store is
  left with that list as \<open>-wallet\<close>.
\<close>

theorem construct_wallet_client:
  assumes enabled: "\<not> GetBoolArg (gArgs n) ''-disablewallet'' (DEFAULT_DISABLE_WALLET k)"
  shows "case Construct k d G n of
           Inl e \<Rightarrow> False
         | Inr n' \<Rightarrow>
             chain_clients n' = chain_clients n
               @ [if GetArgs (gArgs n) ''-wallet'' = [] then ['''']
                  else GetArgs (gArgs n) ''-wallet'']
           \<and> last (chain_clients n') \<noteq> []
           \<and> GetArgs (gArgs n') ''-wallet'' = last (chain_clients n')"
  using enabled
  by (auto simp: Construct_def copy_legacy_wallet_result Let_def SoftSetArg_def IsArgSet_def
      GetArgs_def ForceSetArg_def)

lemma args_wallets_not_disabled:
  "\<not> GetBoolArg (gArgs (node_first_run args_wallets)) ''-disablewallet''
        (DEFAULT_DISABLE_WALLET node_consts)"
  by (simp add: node_first_run_def args_wallets_def GetBoolArg_def IsArgSet_def no_args_def
      node_consts_def)

theorem construct_wallet_client_witness:
  "(case Construct node_consts sample_dirs id (node_first_run no_args) of
      Inl e \<Rightarrow> False | Inr n' \<Rightarrow> chain_clients n' = [ ['''']])
   \<and> (case Construct node_consts sample_dirs id (node_first_run args_wallets) of
      Inl e \<Rightarrow> False | Inr n' \<Rightarrow> chain_clients n' = [ [''alice'', ''bob'']])"
proof -
  have g1: "GetArgs (gArgs (node_first_run no_args)) ''-wallet'' = []"
    by (simp add: node_first_run_def GetArgs_def no_args_def)
  have g2: "GetArgs (gArgs (node_first_run args_wallets)) ''-wallet'' = [''alice'', ''bob'']"
    by (simp add: node_first_run_def GetArgs_def args_wallets_def)
  have c: "chain_clients (node_first_run a) = []" for a
    by (simp add: node_first_run_def)
  have t1: "case Construct node_consts sample_dirs id (node_first_run no_args) of
      Inl e \<Rightarrow> False | Inr n' \<Rightarrow> chain_clients n' = [ ['''']]"
    using construct_wallet_client [OF no_args_not_disabled, where d = sample_dirs and G = id]
    by (cases "Construct node_consts sample_dirs id (node_first_run no_args)")
       (simp_all add: g1 c)
  have t2: "case Construct node_consts sample_dirs id (node_first_run args_wallets) of
      Inl e \<Rightarrow> False | Inr n' \<Rightarrow> chain_clients n' = [ [''alice'', ''bob'']]"
    using construct_wallet_client [OF args_wallets_not_disabled, where d = sample_dirs and G = id]
    by (cases "Construct node_consts sample_dirs id (node_first_run args_wallets)")
       (simp_all add: g2 c)
  from t1 t2 show ?thesis ..
qed


section \<open>Loading\<close>

lemma set_foldl_AddWallet: "set (foldl AddWallet reg hs) = set reg \<union> set hs"
  by (induction hs arbitrary: reg) (auto simp: AddWallet_def)

lemma foldl_AddWallet_distinct:
  "distinct (reg @ hs) \<Longrightarrow> foldl AddWallet reg hs = reg @ hs"
  by (induction hs arbitrary: reg) (auto simp: AddWallet_def)

lemma LoadWallets_prefix:
  assumes "\<forall>f \<in> set pre. create f \<noteq> None"
  shows "LoadWallets create reg (pre @ rest) =
           (case LoadWallets create (foldl AddWallet reg (map (\<lambda>f. the (create f)) pre)) rest of
              (r, reg', evs) \<Rightarrow>
                (r, reg',
                 concat (map (\<lambda>f. [CallCreateWalletFromFile f, CallAddWallet (the (create f))]) pre)
                 @ evs))"
  using assms
  by (induction pre arbitrary: reg) (auto split: prod.splits option.splits)

lemma distinct_AddWallet: "distinct reg \<Longrightarrow> distinct (AddWallet reg h)"
  by (simp add: AddWallet_def)

lemma distinct_LoadWallets:
  "distinct reg \<Longrightarrow> distinct (fst (snd (LoadWallets create reg wallet_files)))"
proof (induction wallet_files arbitrary: reg)
  case Nil
  then show ?case by simp
next
  case (Cons f rest)
  show ?case
  proof (cases "create f")
    case None
    with Cons.prems show ?thesis by simp
  next
    case (Some h)
    from Cons.IH [OF distinct_AddWallet [OF Cons.prems], of h] Some show ?thesis
      by (simp add: case_prod_beta)
  qed
qed

text \<open>
  C1. When the wallets of \<open>pre\<close> are constructed and the construction of the next
  wallet file \<open>w\<close> fails, \<open>LoadWallets\<close> returns false at once: its calls are, for each
  wallet file of \<open>pre\<close> in order, the construction followed immediately by
  \<open>AddWallet\<close> of the handle made, and then the construction of \<open>w\<close>, with no call
  for a wallet file after \<open>w\<close>. The registry then holds the handles it had and the
  handles of \<open>pre\<close>, and nothing else; starting from the empty registry, with handles
  that differ, it is the list of the handles of \<open>pre\<close>.
\<close>

theorem load_fails_fast:
  assumes files: "wallet_files = pre @ w # post"
      and pre_ok: "\<forall>f \<in> set pre. create f \<noteq> None"
      and w_fails: "create w = None"
  shows "LoadWallets create reg wallet_files =
           (False, foldl AddWallet reg (map (\<lambda>f. the (create f)) pre),
            concat (map (\<lambda>f. [CallCreateWalletFromFile f, CallAddWallet (the (create f))]) pre)
            @ [CallCreateWalletFromFile w])
       \<and> set (fst (snd (LoadWallets create reg wallet_files))) =
           set reg \<union> (\<lambda>f. the (create f)) ` set pre
       \<and> (distinct (reg @ map (\<lambda>f. the (create f)) pre) \<longrightarrow>
            fst (snd (LoadWallets create reg wallet_files)) = reg @ map (\<lambda>f. the (create f)) pre)"
  using w_fails
  by (simp add: files LoadWallets_prefix [OF pre_ok] set_foldl_AddWallet foldl_AddWallet_distinct)

theorem load_fails_fast_witness:
  "LoadWallets sample_create [] [''alice'', ''bob'', ''carol''] =
     (False, [5], [CallCreateWalletFromFile ''alice'', CallAddWallet 5,
                   CallCreateWalletFromFile ''bob''])"
proof -
  have f: "[''alice'', ''bob'', ''carol''] = [''alice''] @ ''bob'' # [''carol'']"
    by simp
  have p: "\<forall>f \<in> set [''alice'']. sample_create f \<noteq> None"
    by (simp add: sample_create_def)
  have w: "sample_create ''bob'' = None"
    by (simp add: sample_create_def)
  have h: "the (sample_create ''alice'') = 5"
    by (simp add: sample_create_def)
  from load_fails_fast [OF f p w, of "[]"] show ?thesis
    by (simp add: h AddWallet_def)
qed


section \<open>Unloading\<close>

lemma unload_loop_Nil: "unload_loop [] s = []"
  by (subst unload_loop.simps) (simp del: unload_loop.simps)

lemma unload_loop_snoc:
  "unload_loop (ws @ [w]) s =
     s\<lparr>registry := RemoveWallet (registry s) w\<rparr>
     # s\<lparr>registry := RemoveWallet (registry s) w, released := released s @ [w]\<rparr>
     # unload_loop ws (s\<lparr>registry := RemoveWallet (registry s) w, released := released s @ [w]\<rparr>)"
  by (subst unload_loop.simps) (simp add: Let_def del: unload_loop.simps)

lemma unload_loop_run:
  assumes "distinct ws" and "registry s = ws" and "set ws \<inter> set (released s) = {}"
  shows "(\<forall>t \<in> set (s # unload_loop ws s). set (registry t) \<inter> set (released t) = {})
       \<and> registry (last (s # unload_loop ws s)) = []
       \<and> released (last (s # unload_loop ws s)) = released s @ rev ws
       \<and> (\<forall>(t, t') \<in> set (zip (s # unload_loop ws s) (unload_loop ws s)).
            \<forall>h. h \<in> set (released t') \<and> h \<notin> set (released t) \<longrightarrow> h \<notin> set (registry t))"
  using assms
proof (induction ws arbitrary: s rule: rev_induct)
  case Nil
  then show ?case by (simp add: unload_loop_Nil del: unload_loop.simps)
next
  case (snoc w ws)
  let ?s1 = "s\<lparr>registry := RemoveWallet (registry s) w\<rparr>"
  let ?s2 = "s\<lparr>registry := RemoveWallet (registry s) w, released := released s @ [w]\<rparr>"
  have rem: "RemoveWallet (registry s) w = ws"
    using snoc.prems by (simp add: RemoveWallet_def remove1_append)
  have d: "distinct ws" and r: "registry ?s2 = ws" and i: "set ws \<inter> set (released ?s2) = {}"
    using snoc.prems rem by (auto simp del: unload_loop.simps)
  note IH = snoc.IH [OF d r i]
  have run: "unload_loop (ws @ [w]) s = ?s1 # ?s2 # unload_loop ws ?s2"
    by (rule unload_loop_snoc)
  show ?case
    using IH snoc.prems rem by (auto simp: run simp del: unload_loop.simps)
qed

lemma unload_loop_end:
  assumes "mset (registry s) = mset ws"
  shows "registry (last (s # unload_loop ws s)) = []
       \<and> released (last (s # unload_loop ws s)) = released s @ rev ws"
  using assms
proof (induction ws arbitrary: s rule: rev_induct)
  case Nil
  then show ?case by (simp add: unload_loop_Nil del: unload_loop.simps)
next
  case (snoc w ws)
  let ?s2 = "s\<lparr>registry := RemoveWallet (registry s) w, released := released s @ [w]\<rparr>"
  have "mset (registry ?s2) = mset ws"
    using snoc.prems by (simp add: RemoveWallet_def)
  from snoc.IH [OF this] show ?case
    by (simp add: unload_loop_snoc del: unload_loop.simps)
qed

text \<open>
  C6. Starting from any registry, \<open>UnloadWallets\<close> ends with the empty registry,
  having released every handle of the registry, last first. When the registry it starts
  from is a set (no handle twice, as \<open>AddWallet\<close> keeps it) and no handle of it is
  released yet, then in no state that \<open>UnloadWallets\<close> goes through is a handle both
  in the registry and released, and a handle that a step releases is not in the registry
  before that step: its removal comes before its release.
\<close>

theorem unload_drains_registry:
  "registry (last (UnloadWallets s)) = []
   \<and> released (last (UnloadWallets s)) = released s @ rev (registry s)
   \<and> (distinct (registry s) \<and> set (registry s) \<inter> set (released s) = {} \<longrightarrow>
        (\<forall>t \<in> set (UnloadWallets s). set (registry t) \<inter> set (released t) = {})
      \<and> (\<forall>(t, t') \<in> set (zip (UnloadWallets s) (tl (UnloadWallets s))).
            \<forall>h. h \<in> set (released t') \<and> h \<notin> set (released t) \<longrightarrow> h \<notin> set (registry t)))"
  using unload_loop_end [of s "registry s"] unload_loop_run [of "registry s" s]
  by (simp add: UnloadWallets_def del: unload_loop.simps)

theorem unload_drains_registry_witness:
  "distinct (registry sample_wallets)
   \<and> set (registry sample_wallets) \<inter> set (released sample_wallets) = {}
   \<and> registry (last (UnloadWallets sample_wallets)) = []
   \<and> released (last (UnloadWallets sample_wallets)) = [3, 2, 1]
   \<and> map (\<lambda>t. (registry t, released t)) (UnloadWallets sample_wallets) =
        [([1, 2, 3], []), ([1, 2], []), ([1, 2], [3]), ([1], [3]), ([1], [3, 2]),
         ([], [3, 2]), ([], [3, 2, 1])]"
proof -
  have d: "distinct (registry sample_wallets)"
    by (simp add: sample_wallets_def)
  have i: "set (registry sample_wallets) \<inter> set (released sample_wallets) = {}"
    by (simp add: sample_wallets_def)
  have r: "released sample_wallets @ rev (registry sample_wallets) = [3, 2, 1]"
    by (simp add: sample_wallets_def)
  have u: "map (\<lambda>t. (registry t, released t)) (UnloadWallets sample_wallets) =
        [([1, 2, 3], []), ([1, 2], []), ([1, 2], [3]), ([1], [3]), ([1], [3, 2]),
         ([], [3, 2]), ([], [3, 2, 1])]"
    by (simp add: UnloadWallets_def sample_wallets_def unload_loop.simps RemoveWallet_def)
  from unload_drains_registry [of sample_wallets] d i r u show ?thesis
    by (simp del: unload_loop.simps)
qed

end
